theory Spec2Isabelle
  imports Complex_Main
begin

section \<open>Values of the host language: strings\<close>

text \<open>
  A string of the source language is a sequence of UTF-16 code units; a code unit is
  modelled as a natural number, and \<open>str\<close> turns an ASCII literal into such a sequence.
  The degree sign of the source is the single code unit \<open>0xB0\<close>.
  A \<open>number\<close> of the source language is an IEEE 754 double. The converter is embedded
  twice: over the type \<open>number\<close> of doubles defined below, with the rounding, the
  infinities, NaN and the negative zero of the language, and over the exact reals, the
  arithmetic in which the specification states its formulas and its round-trip law.
  A parameter of type \<open>string | null | undefined\<close> is an \<open>option\<close>: the source only ever
  tests such a value for falsiness, which does not tell \<open>null\<close> from \<open>undefined\<close>.
\<close>

type_synonym codeunit = nat
type_synonym jsstring = "codeunit list"

definition str :: "string \<Rightarrow> jsstring" where
  "str s = map of_char s"

definition degree :: codeunit where
  "degree = 0xB0"

text \<open>
  \<open>String.prototype.toUpperCase\<close> and \<open>toLowerCase\<close>, with the case mappings of every code
  unit below \<open>0x100\<close> (ASCII and Latin-1, the sharp s becoming two letters, the micro sign
  and the y with diaeresis leaving Latin-1). Of the code units from \<open>0x100\<close> on,
  \<open>toUpperCase\<close> maps those whose upper-case form contains an ASCII letter: the dotless i,
  the long s, the ligatures from ff to st, and seven letters that become an ASCII letter
  and a mark. Every other code unit from \<open>0x100\<close> on is left as it is: its case mapping,
  which stays outside ASCII, is not modelled.
\<close>

definition upperBeyondLatin1 :: "(codeunit \<times> jsstring) list" where
  "upperBeyondLatin1 =
     [(0x131, [0x49]), (0x17F, [0x53]),
      (0xFB00, [0x46, 0x46]), (0xFB01, [0x46, 0x49]), (0xFB02, [0x46, 0x4C]),
      (0xFB03, [0x46, 0x46, 0x49]), (0xFB04, [0x46, 0x46, 0x4C]),
      (0xFB05, [0x53, 0x54]), (0xFB06, [0x53, 0x54]),
      (0x149, [0x2BC, 0x4E]), (0x1F0, [0x4A, 0x30C]),
      (0x1E96, [0x48, 0x331]), (0x1E97, [0x54, 0x308]), (0x1E98, [0x57, 0x30A]),
      (0x1E99, [0x59, 0x30A]), (0x1E9A, [0x41, 0x2BE])]"

definition upperCodeUnit :: "codeunit \<Rightarrow> jsstring" where
  "upperCodeUnit c =
     (if 0x61 \<le> c \<and> c \<le> 0x7A then [c - 0x20]
      else if c < 0x80 then [c]
      else if c = 0xB5 then [0x39C]
      else if c = 0xDF then [0x53, 0x53]
      else if 0xE0 \<le> c \<and> c \<le> 0xFE \<and> c \<noteq> 0xF7 then [c - 0x20]
      else if c = 0xFF then [0x178]
      else if c < 0x100 then [c]
      else (case map_of upperBeyondLatin1 c of Some upper \<Rightarrow> upper | None \<Rightarrow> [c]))"

definition toUpperCase :: "jsstring \<Rightarrow> jsstring" where
  "toUpperCase s = concat (map upperCodeUnit s)"

definition lowerCodeUnit :: "codeunit \<Rightarrow> codeunit" where
  "lowerCodeUnit c =
     (if (0x41 \<le> c \<and> c \<le> 0x5A) \<or> (0xC0 \<le> c \<and> c \<le> 0xDE \<and> c \<noteq> 0xD7)
      then c + 0x20 else c)"

definition toLowerCase :: "jsstring \<Rightarrow> jsstring" where
  "toLowerCase s = map lowerCodeUnit s"

text \<open>
  \<open>String.prototype.replaceAll\<close> with a string pattern: the occurrences of the pattern are
  found from left to right without overlap; the empty pattern matches before every code
  unit and at the end.
\<close>

function replaceAll :: "jsstring \<Rightarrow> jsstring \<Rightarrow> jsstring \<Rightarrow> jsstring" where
  "replaceAll pat rep [] = (if pat = [] then rep else [])"
| "replaceAll pat rep (c # cs) =
     (if pat = [] then rep @ c # replaceAll pat rep cs
      else if take (length pat) (c # cs) = pat
        then rep @ replaceAll pat rep (drop (length pat) (c # cs))
      else c # replaceAll pat rep cs)"
  by pat_completeness auto
termination
  by (relation "measure (\<lambda>(pat, rep, s). length s)") auto

text \<open>
  \<open>String.prototype.trim\<close> removes white space and line terminators from both ends.
\<close>

definition isWhiteSpace :: "codeunit \<Rightarrow> bool" where
  "isWhiteSpace c \<longleftrightarrow>
     c \<in> set [0x09, 0x0A, 0x0B, 0x0C, 0x0D, 0x20, 0xA0, 0x1680, 0x2028, 0x2029,
               0x202F, 0x205F, 0x3000, 0xFEFF] \<or> (0x2000 \<le> c \<and> c \<le> 0x200A)"

definition trim :: "jsstring \<Rightarrow> jsstring" where
  "trim s = rev (dropWhile isWhiteSpace (rev (dropWhile isWhiteSpace s)))"

section \<open>Numbers of the host language\<close>

text \<open>
  An IEEE 754 double is a finite value, an infinity or NaN. A finite value is given by
  the rational it denotes; \<open>Fin 0\<close> is the positive zero and \<open>NegZero\<close> the negative one.
  Every operation rounds its exact result to the nearest double, a tie going to the
  double with an even significand.
\<close>

datatype number = Fin rat | NegZero | PosInf | NegInf | NaN

definition pow2 :: "int \<Rightarrow> rat" where
  "pow2 k = (if 0 \<le> k then 2 ^ nat k else 1 / 2 ^ nat (- k))"

definition roundHalfEven :: "rat \<Rightarrow> int" where
  "roundHalfEven x =
     (let f = \<lfloor>x\<rfloor>; d = x - of_int f
      in if d < 1 / 2 then f
         else if 1 / 2 < d then f + 1
         else if even f then f else f + 1)"

text \<open>
  The exponent of a positive rational \<open>a\<close> below \<open>2 ^ hi\<close>: the greatest \<open>e\<close> from \<open>lo\<close> on
  with \<open>2 ^ e \<le> a\<close>, and \<open>lo\<close> when there is none, found by bisection.
\<close>

function exponentIn :: "int \<Rightarrow> int \<Rightarrow> rat \<Rightarrow> int" where
  "exponentIn lo hi a =
     (if hi - lo \<le> 1 then lo
      else let mid = (lo + hi) div 2
           in if pow2 mid \<le> a then exponentIn mid hi a else exponentIn lo mid a)"
  by pat_completeness auto
termination
  by (relation "measure (\<lambda>(lo, hi, a). nat (hi - lo))") auto

definition signedZero :: "bool \<Rightarrow> number" where
  "signedZero s = (if s then NegZero else Fin 0)"

definition signedInf :: "bool \<Rightarrow> number" where
  "signedInf s = (if s then NegInf else PosInf)"

text \<open>
  Rounding to binary64: 53 significant bits, the least exponent \<open>-1022\<close> (below it the
  spacing of the subnormal numbers, \<open>2 ^ -1074\<close>, stays), and overflow to an infinity from
  \<open>2 ^ 1024\<close> on.
\<close>

definition round64 :: "rat \<Rightarrow> number" where
  "round64 q =
     (let a = \<bar>q\<bar>; s = (q < 0)
      in if a = 0 then Fin 0
         else if pow2 1024 \<le> a then signedInf s
         else
           let e = exponentIn (- 1022) 1024 a;
               u = pow2 (e - 52);
               r = of_int (roundHalfEven (a / u)) * u
           in if pow2 1024 \<le> r then signedInf s
              else if r = 0 then signedZero s
              else Fin (if s then - r else r))"

fun negative :: "number \<Rightarrow> bool" where
  "negative (Fin q) = (q < 0)"
| "negative NegZero = True"
| "negative NegInf = True"
| "negative PosInf = False"
| "negative NaN = False"

fun isZero :: "number \<Rightarrow> bool" where
  "isZero (Fin q) = (q = 0)"
| "isZero NegZero = True"
| "isZero x = False"

fun isInf :: "number \<Rightarrow> bool" where
  "isInf PosInf = True"
| "isInf NegInf = True"
| "isInf x = False"

fun negate :: "number \<Rightarrow> number" where
  "negate (Fin q) = (if q = 0 then NegZero else Fin (- q))"
| "negate NegZero = Fin 0"
| "negate PosInf = NegInf"
| "negate NegInf = PosInf"
| "negate NaN = NaN"

fun addNumber :: "number \<Rightarrow> number \<Rightarrow> number" where
  "addNumber NaN y = NaN"
| "addNumber x NaN = NaN"
| "addNumber PosInf NegInf = NaN"
| "addNumber NegInf PosInf = NaN"
| "addNumber PosInf y = PosInf"
| "addNumber x PosInf = PosInf"
| "addNumber NegInf y = NegInf"
| "addNumber x NegInf = NegInf"
| "addNumber NegZero y = y"
| "addNumber x NegZero = x"
| "addNumber (Fin a) (Fin b) = round64 (a + b)"

fun mulNumber :: "number \<Rightarrow> number \<Rightarrow> number" where
  "mulNumber (Fin a) (Fin b) =
     (if a = 0 \<or> b = 0 then signedZero ((a < 0) \<noteq> (b < 0)) else round64 (a * b))"
| "mulNumber x y =
     (if x = NaN \<or> y = NaN then NaN
      else if isInf x \<or> isInf y
        then (if isZero x \<or> isZero y then NaN else signedInf (negative x \<noteq> negative y))
      else signedZero (negative x \<noteq> negative y))"

fun divNumber :: "number \<Rightarrow> number \<Rightarrow> number" where
  "divNumber (Fin a) (Fin b) =
     (if b = 0 then (if a = 0 then NaN else signedInf (a < 0))
      else if a = 0 then signedZero (b < 0)
      else round64 (a / b))"
| "divNumber x y =
     (if x = NaN \<or> y = NaN then NaN
      else if isInf x then (if isInf y then NaN else signedInf (negative x \<noteq> negative y))
      else if isInf y then signedZero (negative x \<noteq> negative y)
      else if isZero y then (if isZero x then NaN else signedInf (negative x \<noteq> negative y))
      else signedZero (negative x \<noteq> negative y))"

text \<open>
  The operators \<open>+\<close>, \<open>-\<close>, \<open>*\<close> and \<open>/\<close> of the source language on doubles.
\<close>

instantiation number :: "{plus, minus, times, inverse}"
begin

definition plus_number :: "number \<Rightarrow> number \<Rightarrow> number" where
  "plus_number x y = addNumber x y"

definition minus_number :: "number \<Rightarrow> number \<Rightarrow> number" where
  "minus_number x y = addNumber x (negate y)"

definition times_number :: "number \<Rightarrow> number \<Rightarrow> number" where
  "times_number x y = mulNumber x y"

definition divide_number :: "number \<Rightarrow> number \<Rightarrow> number" where
  "divide_number x y = divNumber x y"

definition inverse_number :: "number \<Rightarrow> number" where
  "inverse_number x = divNumber (Fin 1) x"

instance ..

end

section \<open>The module temperatureConversion\<close>

text \<open>
  The two string-literal union types. Both have a member \<open>'none'\<close>; the device mode's is
  \<open>none_d\<close> here.
\<close>

datatype TemperatureConversionTarget = none | celsius | fahrenheit

datatype TemperatureDeviceConversionMode = follow_system | none_d | force_celsius | force_fahrenheit

text \<open>
  The two converter interfaces, over a type \<open>'n\<close> of numbers. Both have a field \<open>units\<close>
  in the source; the output converter's is \<open>units_o\<close> here, since two records cannot share
  a field name.
\<close>

record 'n TemperatureUnitConverter =
  units :: "jsstring list"
  toCelsius :: "'n \<Rightarrow> 'n"

record 'n TemperatureOutputConverter =
  units_o :: "jsstring list"
  fromCelsius :: "'n \<Rightarrow> 'n"

definition DEFAULT_TEMPERATURE_CONVERSION_TARGET :: TemperatureConversionTarget where
  "DEFAULT_TEMPERATURE_CONVERSION_TARGET = none"

definition DEFAULT_TEMPERATURE_DEVICE_CONVERSION_MODE :: TemperatureDeviceConversionMode where
  "DEFAULT_TEMPERATURE_DEVICE_CONVERSION_MODE = follow_system"

text \<open>
  The source writes the alias list of each unit family out twice, once in each converter
  table; here each is one constant. The tables, the two lookups and the converter that
  follow are over the exact reals; their embedding over the doubles comes after them.
\<close>

definition celsiusUnits :: "jsstring list" where
  "celsiusUnits =
     [str ''C'', str ''CELSIUS'', str ''DEGREE_CELSIUS'', str ''DEGREES_CELSIUS'',
      degree # str ''C'']"

definition fahrenheitUnits :: "jsstring list" where
  "fahrenheitUnits =
     [str ''F'', str ''FAHRENHEIT'', str ''DEGREE_FAHRENHEIT'', str ''DEGREES_FAHRENHEIT'',
      degree # str ''F'']"

definition temperatureFromUnits :: "real TemperatureUnitConverter list" where
  "temperatureFromUnits =
     [\<lparr>units = celsiusUnits, toCelsius = (\<lambda>value. value)\<rparr>,
      \<lparr>units = fahrenheitUnits, toCelsius = (\<lambda>value. ((value - 32) * 5) / 9)\<rparr>]"

definition temperatureToUnits :: "real TemperatureOutputConverter list" where
  "temperatureToUnits =
     [\<lparr>units_o = celsiusUnits, fromCelsius = (\<lambda>value. value)\<rparr>,
      \<lparr>units_o = fahrenheitUnits, fromCelsius = (\<lambda>value. value * (9 / 5) + 32)\<rparr>]"

text \<open>
  \<open>NORMALIZED_UNIT_MAP\<close> is an object literal with four own keys. It is only ever indexed
  with an upper-cased string, and every property an object inherits has a lower-case
  letter in its name, so a lookup finds an own key or nothing.
\<close>

definition NORMALIZED_UNIT_MAP :: "jsstring \<rightharpoonup> jsstring" where
  "NORMALIZED_UNIT_MAP =
     map_of [(str ''CELSIUS'', str ''C''), (str ''C'', str ''C''),
             (str ''FAHRENHEIT'', str ''F''), (str ''F'', str ''F'')]"

definition normalizeTemperatureUnit :: "jsstring option \<Rightarrow> jsstring option" where
  "normalizeTemperatureUnit unit =
     (case unit of
        None \<Rightarrow> None
      | Some u \<Rightarrow>
          if u = [] then None
          else
            let normalized =
              trim (replaceAll (str '' '') (str ''_'')
                     (replaceAll (str ''-'') (str ''_'')
                       (replaceAll [degree] [] (toUpperCase u))))
            in Some (case NORMALIZED_UNIT_MAP normalized of
                       Some mapped \<Rightarrow> mapped
                     | None \<Rightarrow> normalized))"

text \<open>
  The value of the local constant \<open>normalized\<close> of \<open>normalizeTemperatureUnit\<close>, under a name.
\<close>

abbreviation normalizedText :: "jsstring \<Rightarrow> jsstring" where
  "normalizedText u \<equiv>
     trim (replaceAll (str '' '') (str ''_'')
            (replaceAll (str ''-'') (str ''_'')
              (replaceAll [degree] [] (toUpperCase u))))"

text \<open>
  The two private lookups. \<open>!normalized\<close> holds for \<open>undefined\<close> and for the empty string.
\<close>

definition findFromConverter :: "jsstring option \<Rightarrow> real TemperatureUnitConverter option" where
  "findFromConverter unit =
     (case normalizeTemperatureUnit unit of
        None \<Rightarrow> None
      | Some normalized \<Rightarrow>
          if normalized = [] then None
          else List.find (\<lambda>converter. normalized \<in> set (units converter)) temperatureFromUnits)"

definition findToConverter :: "jsstring option \<Rightarrow> real TemperatureOutputConverter option" where
  "findToConverter unit =
     (case normalizeTemperatureUnit unit of
        None \<Rightarrow> None
      | Some normalized \<Rightarrow>
          if normalized = [] then None
          else List.find (\<lambda>converter. normalized \<in> set (units_o converter)) temperatureToUnits)"

text \<open>
  The result object \<open>{ value, converted, unit }\<close>; the field \<open>value\<close> is \<open>val\<close> here.
\<close>

record 'n ConversionResult =
  val :: 'n
  converted :: bool
  unit :: "jsstring option"

definition falsy :: "jsstring option \<Rightarrow> bool" where
  "falsy s \<longleftrightarrow> s = None \<or> s = Some []"

definition unitIfCorF :: "jsstring option \<Rightarrow> jsstring option" where
  "unitIfCorF n = (if n = Some (str ''C'') \<or> n = Some (str ''F'') then n else None)"

definition convertTemperatureValue ::
    "real \<Rightarrow> jsstring option \<Rightarrow> jsstring option \<Rightarrow> real ConversionResult" where
  "convertTemperatureValue value fromUnit toUnit =
     (let normalizedFrom = normalizeTemperatureUnit fromUnit;
          normalizedTo = normalizeTemperatureUnit toUnit
      in if falsy normalizedTo \<or> falsy normalizedFrom \<or> normalizedFrom = normalizedTo
         then \<lparr>val = value, converted = False, unit = unitIfCorF normalizedFrom\<rparr>
         else
           (case (findFromConverter normalizedFrom, findToConverter normalizedTo) of
              (Some fromConverter, Some toConverter) \<Rightarrow>
                (let celsiusValue = toCelsius fromConverter value;
                     converted = fromCelsius toConverter celsiusValue
                 in \<lparr>val = converted, converted = True, unit = unitIfCorF normalizedTo\<rparr>)
            | _ \<Rightarrow> \<lparr>val = value, converted = False, unit = unitIfCorF normalizedFrom\<rparr>))"

text \<open>
  The same tables, lookups and converter over the doubles, the arithmetic of the
  program. The literals \<open>32\<close>, \<open>5\<close> and \<open>9\<close> are doubles, and \<open>9 / 5\<close> is their rounded
  quotient.
\<close>

definition temperatureFromUnits_double :: "number TemperatureUnitConverter list" where
  "temperatureFromUnits_double =
     [\<lparr>units = celsiusUnits, toCelsius = (\<lambda>value. value)\<rparr>,
      \<lparr>units = fahrenheitUnits,
       toCelsius = (\<lambda>value. ((value - Fin 32) * Fin 5) / Fin 9)\<rparr>]"

definition temperatureToUnits_double :: "number TemperatureOutputConverter list" where
  "temperatureToUnits_double =
     [\<lparr>units_o = celsiusUnits, fromCelsius = (\<lambda>value. value)\<rparr>,
      \<lparr>units_o = fahrenheitUnits,
       fromCelsius = (\<lambda>value. value * (Fin 9 / Fin 5) + Fin 32)\<rparr>]"

definition findFromConverter_double ::
    "jsstring option \<Rightarrow> number TemperatureUnitConverter option" where
  "findFromConverter_double u =
     (case normalizeTemperatureUnit u of
        None \<Rightarrow> None
      | Some normalized \<Rightarrow>
          if normalized = [] then None
          else List.find (\<lambda>converter. normalized \<in> set (units converter))
                 temperatureFromUnits_double)"

definition findToConverter_double ::
    "jsstring option \<Rightarrow> number TemperatureOutputConverter option" where
  "findToConverter_double u =
     (case normalizeTemperatureUnit u of
        None \<Rightarrow> None
      | Some normalized \<Rightarrow>
          if normalized = [] then None
          else List.find (\<lambda>converter. normalized \<in> set (units_o converter))
                 temperatureToUnits_double)"

definition convertTemperatureValue_double ::
    "number \<Rightarrow> jsstring option \<Rightarrow> jsstring option \<Rightarrow> number ConversionResult" where
  "convertTemperatureValue_double value fromUnit toUnit =
     (let normalizedFrom = normalizeTemperatureUnit fromUnit;
          normalizedTo = normalizeTemperatureUnit toUnit
      in if falsy normalizedTo \<or> falsy normalizedFrom \<or> normalizedFrom = normalizedTo
         then \<lparr>val = value, converted = False, unit = unitIfCorF normalizedFrom\<rparr>
         else
           (case (findFromConverter_double normalizedFrom,
                  findToConverter_double normalizedTo) of
              (Some fromConverter, Some toConverter) \<Rightarrow>
                (let celsiusValue = toCelsius fromConverter value;
                     converted = fromCelsius toConverter celsiusValue
                 in \<lparr>val = converted, converted = True, unit = unitIfCorF normalizedTo\<rparr>)
            | _ \<Rightarrow> \<lparr>val = value, converted = False, unit = unitIfCorF normalizedFrom\<rparr>))"

definition resolveTemperatureTargetUnit ::
    "TemperatureConversionTarget \<Rightarrow> TemperatureDeviceConversionMode \<Rightarrow> jsstring option" where
  "resolveTemperatureTargetUnit systemConversion deviceConversion =
     (if deviceConversion = none_d then None
      else if deviceConversion = force_celsius then Some (str ''C'')
      else if deviceConversion = force_fahrenheit then Some (str ''F'')
      else if systemConversion = celsius then Some (str ''C'')
      else if systemConversion = fahrenheit then Some (str ''F'')
      else None)"

definition toTemperatureUnitSymbol :: "jsstring option \<Rightarrow> jsstring" where
  "toTemperatureUnitSymbol u =
     (let normalized = normalizeTemperatureUnit u
      in if normalized = Some (str ''C'') then degree # str ''C''
         else if normalized = Some (str ''F'') then degree # str ''F''
         else [])"

definition thermostatAttributes :: "jsstring list" where
  "thermostatAttributes =
     [str ''localTemperature'',
      str ''outdoorTemperature'',
      str ''occupiedHeatingSetpoint'',
      str ''occupiedCoolingSetpoint'',
      str ''unoccupiedHeatingSetpoint'',
      str ''unoccupiedCoolingSetpoint'',
      str ''absMinHeatSetpointLimit'',
      str ''absMaxHeatSetpointLimit'',
      str ''absMinCoolSetpointLimit'',
      str ''absMaxCoolSetpointLimit'',
      str ''minHeatSetpointLimit'',
      str ''maxHeatSetpointLimit'',
      str ''minCoolSetpointLimit'',
      str ''maxCoolSetpointLimit'']"

definition isTemperatureAttribute :: "jsstring \<Rightarrow> jsstring \<Rightarrow> bool" where
  "isTemperatureAttribute clusterName attributeName =
     (let cluster = toLowerCase clusterName
      in if cluster = str ''temperaturemeasurement'' then attributeName = str ''measuredValue''
         else if cluster \<noteq> str ''thermostat'' then False
         else attributeName \<in> set thermostatAttributes)"

section \<open>The normaliser as the specification words it\<close>

text \<open>
  The specification's algorithm, step by step: a falsy input gives \<open>undefined\<close>; otherwise
  the string is upper-cased, every degree sign is removed, every hyphen and every space
  becomes an underscore, the result is trimmed, and the exact-match table
  (\<open>CELSIUS\<close> and \<open>C\<close> to \<open>C\<close>, \<open>FAHRENHEIT\<close> and \<open>F\<close> to \<open>F\<close>) is applied where it has the
  transformed string as a key.
\<close>

definition normalizeTemperatureUnit_spec :: "jsstring option \<Rightarrow> jsstring option" where
  "normalizeTemperatureUnit_spec raw =
     (case raw of
        None \<Rightarrow> None
      | Some u \<Rightarrow>
          if u = [] then None
          else
            let uppercased = toUpperCase u;
                withoutDegree = filter (\<lambda>c. c \<noteq> degree) uppercased;
                underscored = map (\<lambda>c. if c = 0x2D \<or> c = 0x20 then 0x5F else c) withoutDegree;
                trimmed = trim underscored
            in Some (if trimmed = str ''CELSIUS'' \<or> trimmed = str ''C'' then str ''C''
                     else if trimmed = str ''FAHRENHEIT'' \<or> trimmed = str ''F'' then str ''F''
                     else trimmed))"

section \<open>Facts about the string primitives\<close>

lemma str_eq_Nil_iff: "str s = [] \<longleftrightarrow> s = []"
  by (simp add: str_def)

lemma str_inject: "str a = str b \<longleftrightarrow> a = b"
  unfolding str_def by (rule inj_map_eq_map) (rule inj_of_char)

lemma replaceAll_single:
  "replaceAll [p] rep s = concat (map (\<lambda>c. if c = p then rep else [c]) s)"
  by (induction s) simp_all

lemma last_dropWhile_keep:
  "dropWhile P xs \<noteq> [] \<Longrightarrow> last (dropWhile P xs) = last xs"
  by (induction xs) (auto split: if_splits)

lemma set_trim: "set (trim s) \<subseteq> set s"
  unfolding trim_def by (auto dest!: set_dropWhileD)

lemma trim_ends:
  assumes "trim s \<noteq> []"
  shows "\<not> isWhiteSpace (hd (trim s))" and "\<not> isWhiteSpace (last (trim s))"
proof -
  let ?A = "dropWhile isWhiteSpace s"
  let ?B = "dropWhile isWhiteSpace (rev ?A)"
  from assms have B: "?B \<noteq> []" by (simp add: trim_def)
  then have A: "?A \<noteq> []" by (auto dest: set_dropWhileD)
  have "hd (trim s) = last ?B" using B by (simp add: trim_def hd_rev)
  also have "\<dots> = last (rev ?A)" using B by (rule last_dropWhile_keep)
  also have "\<dots> = hd ?A" using A by (simp add: last_rev)
  finally show "\<not> isWhiteSpace (hd (trim s))" using hd_dropWhile [OF A] by simp
  have "last (trim s) = hd ?B" using B by (simp add: trim_def last_rev)
  then show "\<not> isWhiteSpace (last (trim s))" using hd_dropWhile [OF B] by simp
qed

lemma trim_fixed:
  assumes "s = [] \<or> (\<not> isWhiteSpace (hd s) \<and> \<not> isWhiteSpace (last s))"
  shows "trim s = s"
proof (cases "s = []")
  case True then show ?thesis by (simp add: trim_def)
next
  case False
  with assms have h: "\<not> isWhiteSpace (hd s)" and l: "\<not> isWhiteSpace (last s)" by auto
  have 1: "dropWhile isWhiteSpace s = s" using h by (simp add: dropWhile_eq_self_iff)
  have "hd (rev s) = last s" using False by (simp add: hd_rev)
  then have 2: "dropWhile isWhiteSpace (rev s) = rev s" using l by (simp add: dropWhile_eq_self_iff)
  show ?thesis by (simp add: trim_def 1 2)
qed

lemma trim_idem: "trim (trim s) = trim s"
  using trim_ends [of s] by (intro trim_fixed) blast

lemma str_one: "str [c] = [of_char c]"
  by (simp add: str_def)

lemma concat_single_fixed:
  "p \<notin> set s \<Longrightarrow> concat (map (\<lambda>c. if c = p then rep else [c]) s) = s"
  by (induction s) auto

lemma replaceAll_absent: "p \<notin> set s \<Longrightarrow> replaceAll [p] rep s = s"
  by (simp add: replaceAll_single concat_single_fixed)

lemma set_replaceAll_single:
  "set (replaceAll [p] rep s) = (set s - {p}) \<union> (if p \<in> set s then set rep else {})"
  by (induction s) (auto simp: replaceAll_single)

lemma upperCodeUnit_Latin1:
  "d < 0x100 \<Longrightarrow> upperCodeUnit d =
     (if 0x61 \<le> d \<and> d \<le> 0x7A then [d - 0x20]
      else if d = 0xB5 then [0x39C]
      else if d = 0xDF then [0x53, 0x53]
      else if 0xE0 \<le> d \<and> d \<le> 0xFE \<and> d \<noteq> 0xF7 then [d - 0x20]
      else if d = 0xFF then [0x178]
      else [d])"
  by (simp add: upperCodeUnit_def)

lemma upperCodeUnit_leaving_Latin1:
  "upperCodeUnit 0x39C = [0x39C]" "upperCodeUnit 0x178 = [0x178]"
  by (simp_all add: upperCodeUnit_def upperBeyondLatin1_def)

lemma upperCodeUnit_Latin1_out:
  assumes "d < 0x100" and "c \<in> set (upperCodeUnit d)"
  shows "upperCodeUnit c = [c]"
proof -
  from assms have "c = 0x39C \<or> c = 0x178 \<or>
      (c < 0x100 \<and> \<not> (0x61 \<le> c \<and> c \<le> 0x7A) \<and> c \<noteq> 0xB5 \<and> c \<noteq> 0xDF \<and>
       \<not> (0xE0 \<le> c \<and> c \<le> 0xFE \<and> c \<noteq> 0xF7) \<and> c \<noteq> 0xFF)"
    by (auto simp: upperCodeUnit_Latin1 split: if_splits)
  then show ?thesis
    by (auto simp: upperCodeUnit_leaving_Latin1 upperCodeUnit_Latin1)
qed

lemma upperBeyondLatin1_out:
  "list_all (\<lambda>(d, upper). list_all (\<lambda>c. upperCodeUnit c = [c]) upper) upperBeyondLatin1"
  by (simp add: upperBeyondLatin1_def upperCodeUnit_def)

lemma upperCodeUnit_unmapped:
  assumes "\<not> d < 0x100" and "map_of upperBeyondLatin1 d = None"
  shows "upperCodeUnit d = [d]"
  using assms by (simp add: upperCodeUnit_def)

lemma upperCodeUnit_out: "c \<in> set (upperCodeUnit d) \<Longrightarrow> upperCodeUnit c = [c]"
proof (cases "d < 0x100")
  case True
  then show "c \<in> set (upperCodeUnit d) \<Longrightarrow> upperCodeUnit c = [c]"
    by (rule upperCodeUnit_Latin1_out)
next
  case False
  assume c: "c \<in> set (upperCodeUnit d)"
  show "upperCodeUnit c = [c]"
  proof (cases "map_of upperBeyondLatin1 d")
    case None
    with False c show ?thesis by (simp add: upperCodeUnit_unmapped)
  next
    case (Some upper)
    with False c have "c \<in> set upper" by (simp add: upperCodeUnit_def)
    moreover from Some have "(d, upper) \<in> set upperBeyondLatin1" by (rule map_of_SomeD)
    ultimately show ?thesis
      using upperBeyondLatin1_out by (auto simp: list_all_iff)
  qed
qed

lemma toUpperCase_fixed: "\<forall>c\<in>set s. upperCodeUnit c = [c] \<Longrightarrow> toUpperCase s = s"
  by (induction s) (simp_all add: toUpperCase_def)

lemma toUpperCase_out: "c \<in> set (toUpperCase s) \<Longrightarrow> upperCodeUnit c = [c]"
  by (auto simp: toUpperCase_def dest: upperCodeUnit_out)

lemma upperCodeUnit_underscore: "upperCodeUnit 0x5F = [0x5F]"
  by (simp add: upperCodeUnit_def)

lemma normalizedText_set:
  assumes "c \<in> set (normalizedText u)"
  shows "upperCodeUnit c = [c] \<and> c \<noteq> degree \<and> c \<noteq> 0x2D \<and> c \<noteq> 0x20"
proof -
  from assms set_trim have "c \<in> set (replaceAll [0x20] [0x5F]
            (replaceAll [0x2D] [0x5F] (replaceAll [degree] [] (toUpperCase u))))"
    by (auto simp: str_one)
  then have "(c \<in> set (toUpperCase u) \<or> c = 0x5F) \<and> c \<noteq> degree \<and> c \<noteq> 0x2D \<and> c \<noteq> 0x20"
    by (auto simp: set_replaceAll_single degree_def split: if_splits)
  then show ?thesis
    using toUpperCase_out upperCodeUnit_underscore by blast
qed

lemma normalizedText_idem: "normalizedText (normalizedText u) = normalizedText u"
proof -
  let ?t = "normalizedText u"
  have st: "\<forall>c\<in>set ?t. upperCodeUnit c = [c]"
    and d: "degree \<notin> set ?t" and h: "0x2D \<notin> set ?t" and s: "0x20 \<notin> set ?t"
    using normalizedText_set [of _ u] by blast+
  have "toUpperCase ?t = ?t" using st by (rule toUpperCase_fixed)
  moreover have "replaceAll [degree] [] ?t = ?t" using d by (rule replaceAll_absent)
  moreover have "replaceAll (str ''-'') (str ''_'') ?t = ?t"
    using h by (simp add: str_one replaceAll_absent)
  moreover have "replaceAll (str '' '') (str ''_'') ?t = ?t"
    using s by (simp add: str_one replaceAll_absent)
  moreover have "trim ?t = ?t" by (rule trim_idem)
  ultimately show ?thesis by simp
qed

section \<open>Evaluating the normaliser\<close>

lemma NORMALIZED_UNIT_MAP_apply:
  "NORMALIZED_UNIT_MAP t =
     (if t = str ''CELSIUS'' \<or> t = str ''C'' then Some (str ''C'')
      else if t = str ''FAHRENHEIT'' \<or> t = str ''F'' then Some (str ''F'')
      else None)"
  by (simp add: NORMALIZED_UNIT_MAP_def)

lemma normalizeTemperatureUnit_Some:
  "u \<noteq> [] \<Longrightarrow> normalizeTemperatureUnit (Some u) =
     Some (case NORMALIZED_UNIT_MAP (normalizedText u) of
             Some mapped \<Rightarrow> mapped | None \<Rightarrow> normalizedText u)"
  by (simp add: normalizeTemperatureUnit_def Let_def)

lemmas string_eval = str_def degree_def toUpperCase_def upperCodeUnit_def trim_def isWhiteSpace_def

lemma normalizedText_examples:
  "normalizedText (str ''C'') = str ''C''"
  "normalizedText (str ''CELSIUS'') = str ''CELSIUS''"
  "normalizedText (degree # str ''C'') = str ''C''"
  "normalizedText (str ''DEGREE_CELSIUS'') = str ''DEGREE_CELSIUS''"
  "normalizedText (str ''DEGREES_CELSIUS'') = str ''DEGREES_CELSIUS''"
  "normalizedText (str ''F'') = str ''F''"
  "normalizedText (str ''FAHRENHEIT'') = str ''FAHRENHEIT''"
  "normalizedText (degree # str ''F'') = str ''F''"
  "normalizedText (str ''DEGREE_FAHRENHEIT'') = str ''DEGREE_FAHRENHEIT''"
  "normalizedText (str ''DEGREES_FAHRENHEIT'') = str ''DEGREES_FAHRENHEIT''"
  "normalizedText (str ''degrees fahrenheit'') = str ''DEGREES_FAHRENHEIT''"
  "normalizedText (str ''K'') = str ''K''"
  "normalizedText (str ''kelvin'') = str ''KELVIN''"
  "normalizedText (str ''celsius'') = str ''CELSIUS''"
  "normalizedText (str ''fahrenheit'') = str ''FAHRENHEIT''"
  by (simp_all add: string_eval)

lemma normalizeTemperatureUnit_examples:
  "normalizeTemperatureUnit (Some (str ''C'')) = Some (str ''C'')"
  "normalizeTemperatureUnit (Some (str ''CELSIUS'')) = Some (str ''C'')"
  "normalizeTemperatureUnit (Some (degree # str ''C'')) = Some (str ''C'')"
  "normalizeTemperatureUnit (Some (str ''DEGREE_CELSIUS'')) = Some (str ''DEGREE_CELSIUS'')"
  "normalizeTemperatureUnit (Some (str ''DEGREES_CELSIUS'')) = Some (str ''DEGREES_CELSIUS'')"
  "normalizeTemperatureUnit (Some (str ''F'')) = Some (str ''F'')"
  "normalizeTemperatureUnit (Some (str ''FAHRENHEIT'')) = Some (str ''F'')"
  "normalizeTemperatureUnit (Some (degree # str ''F'')) = Some (str ''F'')"
  "normalizeTemperatureUnit (Some (str ''DEGREE_FAHRENHEIT'')) = Some (str ''DEGREE_FAHRENHEIT'')"
  "normalizeTemperatureUnit (Some (str ''DEGREES_FAHRENHEIT'')) = Some (str ''DEGREES_FAHRENHEIT'')"
  "normalizeTemperatureUnit (Some (str ''degrees fahrenheit'')) = Some (str ''DEGREES_FAHRENHEIT'')"
  "normalizeTemperatureUnit (Some (str ''K'')) = Some (str ''K'')"
  "normalizeTemperatureUnit (Some (str ''kelvin'')) = Some (str ''KELVIN'')"
  "normalizeTemperatureUnit (Some (str ''celsius'')) = Some (str ''C'')"
  "normalizeTemperatureUnit (Some (str ''fahrenheit'')) = Some (str ''F'')"
  by (simp_all add: normalizeTemperatureUnit_Some normalizedText_examples
        NORMALIZED_UNIT_MAP_apply str_eq_Nil_iff str_inject)

text \<open>
  The long s upper-cases to an ASCII letter: \<open>cel\<close>, long s, \<open>ius\<close> is an alias of Celsius.
\<close>

lemma normalizeTemperatureUnit_long_s:
  "normalizeTemperatureUnit (Some (str ''cel'' @ [0x17F] @ str ''ius'')) = Some (str ''C'')"
proof -
  have "normalizedText (str ''cel'' @ [0x17F] @ str ''ius'') = str ''CELSIUS''"
    by (simp add: string_eval upperBeyondLatin1_def)
  then show ?thesis
    by (simp add: normalizeTemperatureUnit_Some NORMALIZED_UNIT_MAP_apply str_inject)
qed

section \<open>Facts about the normaliser and the converter lookups\<close>

lemma normalizeTemperatureUnit_None_iff:
  "normalizeTemperatureUnit u = None \<longleftrightarrow> u = None \<or> u = Some []"
  by (cases u) (simp_all add: normalizeTemperatureUnit_def Let_def)

lemma normalizeTemperatureUnit_idem:
  assumes "normalizeTemperatureUnit u = Some n" and "n \<noteq> []"
  shows "normalizeTemperatureUnit (Some n) = Some n"
proof -
  from assms(1) obtain s where u: "u = Some s" and s: "s \<noteq> []"
    by (cases u) (auto simp: normalizeTemperatureUnit_def split: if_splits)
  let ?t = "normalizedText s"
  have n: "n = (case NORMALIZED_UNIT_MAP ?t of Some mapped \<Rightarrow> mapped | None \<Rightarrow> ?t)"
    using assms(1) s unfolding u by (simp add: normalizeTemperatureUnit_Some)
  show ?thesis
  proof (cases "NORMALIZED_UNIT_MAP ?t")
    case None
    with n have "n = ?t" by simp
    with None assms(2) show ?thesis
      by (simp add: normalizeTemperatureUnit_Some normalizedText_idem)
  next
    case (Some mapped)
    with n have "n = str ''C'' \<or> n = str ''F''"
      by (auto simp: NORMALIZED_UNIT_MAP_apply split: if_splits)
    then show ?thesis
      by (auto simp: normalizeTemperatureUnit_examples)
  qed
qed

lemma celsiusUnits_nonempty: "[] \<notin> set celsiusUnits"
  by (simp add: celsiusUnits_def str_def)

lemma fahrenheitUnits_nonempty: "[] \<notin> set fahrenheitUnits"
  by (simp add: fahrenheitUnits_def str_def)

lemma units_disjoint: "set celsiusUnits \<inter> set fahrenheitUnits = {}"
  by (simp add: celsiusUnits_def fahrenheitUnits_def str_def degree_def)

lemma find_temperatureFromUnits:
  "List.find (\<lambda>converter. n \<in> set (units converter)) temperatureFromUnits =
     (if n \<in> set celsiusUnits
        then Some \<lparr>units = celsiusUnits, toCelsius = (\<lambda>value. value)\<rparr>
      else if n \<in> set fahrenheitUnits
        then Some \<lparr>units = fahrenheitUnits, toCelsius = (\<lambda>value. ((value - 32) * 5) / 9)\<rparr>
      else None)"
  by (simp add: temperatureFromUnits_def)

lemma find_temperatureToUnits:
  "List.find (\<lambda>converter. n \<in> set (units_o converter)) temperatureToUnits =
     (if n \<in> set celsiusUnits
        then Some \<lparr>units_o = celsiusUnits, fromCelsius = (\<lambda>value. value)\<rparr>
      else if n \<in> set fahrenheitUnits
        then Some \<lparr>units_o = fahrenheitUnits, fromCelsius = (\<lambda>value. value * (9 / 5) + 32)\<rparr>
      else None)"
  by (simp add: temperatureToUnits_def)

lemma findFromConverter_normalized:
  assumes "normalizeTemperatureUnit u = Some n" and "n \<noteq> []"
  shows "findFromConverter (Some n) =
           List.find (\<lambda>converter. n \<in> set (units converter)) temperatureFromUnits"
  using assms(2) normalizeTemperatureUnit_idem [OF assms]
  by (simp add: findFromConverter_def)

lemma findToConverter_normalized:
  assumes "normalizeTemperatureUnit u = Some n" and "n \<noteq> []"
  shows "findToConverter (Some n) =
           List.find (\<lambda>converter. n \<in> set (units_o converter)) temperatureToUnits"
  using assms(2) normalizeTemperatureUnit_idem [OF assms]
  by (simp add: findToConverter_def)

lemma findFromConverter_raw:
  "findFromConverter (normalizeTemperatureUnit u) = findFromConverter u"
proof (cases "normalizeTemperatureUnit u")
  case None
  then show ?thesis by (simp add: findFromConverter_def normalizeTemperatureUnit_def)
next
  case (Some n)
  show ?thesis
  proof (cases "n = []")
    case True
    with Some show ?thesis by (simp add: findFromConverter_def normalizeTemperatureUnit_def)
  next
    case False
    with Some show ?thesis
      using findFromConverter_normalized [OF Some False]
      by (simp add: findFromConverter_def)
  qed
qed

lemma findToConverter_raw:
  "findToConverter (normalizeTemperatureUnit u) = findToConverter u"
proof (cases "normalizeTemperatureUnit u")
  case None
  then show ?thesis by (simp add: findToConverter_def normalizeTemperatureUnit_def)
next
  case (Some n)
  show ?thesis
  proof (cases "n = []")
    case True
    with Some show ?thesis by (simp add: findToConverter_def normalizeTemperatureUnit_def)
  next
    case False
    with Some show ?thesis
      using findToConverter_normalized [OF Some False]
      by (simp add: findToConverter_def)
  qed
qed

lemma findFromConverter_absent:
  assumes "normalizeTemperatureUnit u = Some n"
    and "\<forall>converter\<in>set temperatureFromUnits. n \<notin> set (units converter)"
  shows "findFromConverter u = None"
proof (cases "n = []")
  case True
  with assms(1) show ?thesis by (simp add: findFromConverter_def)
next
  case False
  with assms show ?thesis by (simp add: findFromConverter_def find_None_iff)
qed

lemma findToConverter_absent:
  assumes "normalizeTemperatureUnit u = Some n"
    and "\<forall>converter\<in>set temperatureToUnits. n \<notin> set (units_o converter)"
  shows "findToConverter u = None"
proof (cases "n = []")
  case True
  with assms(1) show ?thesis by (simp add: findToConverter_def)
next
  case False
  with assms show ?thesis by (simp add: findToConverter_def find_None_iff)
qed

lemma convertTemperatureValue_raw:
  "convertTemperatureValue v f t =
     (let normalizedFrom = normalizeTemperatureUnit f;
          normalizedTo = normalizeTemperatureUnit t
      in if falsy normalizedTo \<or> falsy normalizedFrom \<or> normalizedFrom = normalizedTo
         then \<lparr>val = v, converted = False, unit = unitIfCorF normalizedFrom\<rparr>
         else
           (case (findFromConverter f, findToConverter t) of
              (Some fromConverter, Some toConverter) \<Rightarrow>
                \<lparr>val = fromCelsius toConverter (toCelsius fromConverter v),
                 converted = True, unit = unitIfCorF normalizedTo\<rparr>
            | _ \<Rightarrow> \<lparr>val = v, converted = False, unit = unitIfCorF normalizedFrom\<rparr>))"
  by (simp add: convertTemperatureValue_def Let_def findFromConverter_raw findToConverter_raw
        split: option.splits)

lemma units_examples:
  "str ''C'' \<in> set celsiusUnits"
  "str ''DEGREE_CELSIUS'' \<in> set celsiusUnits"
  "str ''F'' \<notin> set celsiusUnits"
  "str ''F'' \<in> set fahrenheitUnits"
  "str ''DEGREES_FAHRENHEIT'' \<notin> set celsiusUnits"
  "str ''DEGREES_FAHRENHEIT'' \<in> set fahrenheitUnits"
  "str ''K'' \<notin> set celsiusUnits"
  "str ''K'' \<notin> set fahrenheitUnits"
  "str ''KELVIN'' \<notin> set celsiusUnits"
  "str ''KELVIN'' \<notin> set fahrenheitUnits"
  by (simp_all add: celsiusUnits_def fahrenheitUnits_def str_def degree_def)

lemma findFromConverter_examples:
  "findFromConverter (Some (str ''C'')) = Some \<lparr>units = celsiusUnits, toCelsius = (\<lambda>value. value)\<rparr>"
  "findFromConverter (Some (str ''F'')) =
     Some \<lparr>units = fahrenheitUnits, toCelsius = (\<lambda>value. ((value - 32) * 5) / 9)\<rparr>"
  "findFromConverter (Some (str ''DEGREE_CELSIUS'')) =
     Some \<lparr>units = celsiusUnits, toCelsius = (\<lambda>value. value)\<rparr>"
  "findFromConverter (Some (str ''degrees fahrenheit'')) =
     Some \<lparr>units = fahrenheitUnits, toCelsius = (\<lambda>value. ((value - 32) * 5) / 9)\<rparr>"
  "findFromConverter (Some (str ''K'')) = None"
  "findFromConverter (Some (str ''kelvin'')) = None"
  by (simp_all add: findFromConverter_def normalizeTemperatureUnit_examples
        find_temperatureFromUnits units_examples str_eq_Nil_iff)

lemma findToConverter_examples:
  "findToConverter (Some (str ''C'')) = Some \<lparr>units_o = celsiusUnits, fromCelsius = (\<lambda>value. value)\<rparr>"
  "findToConverter (Some (str ''F'')) =
     Some \<lparr>units_o = fahrenheitUnits, fromCelsius = (\<lambda>value. value * (9 / 5) + 32)\<rparr>"
  "findToConverter (Some (str ''K'')) = None"
  "findToConverter (Some (str ''kelvin'')) = None"
  by (simp_all add: findToConverter_def normalizeTemperatureUnit_examples
        find_temperatureToUnits units_examples str_eq_Nil_iff)

lemma convert_C_to_F:
  "convertTemperatureValue v (Some (str ''C'')) (Some (str ''F'')) =
     \<lparr>val = v * (9 / 5) + 32, converted = True, unit = Some (str ''F'')\<rparr>"
  by (simp add: convertTemperatureValue_raw normalizeTemperatureUnit_examples falsy_def
        findFromConverter_examples findToConverter_examples unitIfCorF_def str_inject str_eq_Nil_iff)

lemma convert_F_to_C:
  "convertTemperatureValue v (Some (str ''F'')) (Some (str ''C'')) =
     \<lparr>val = ((v - 32) * 5) / 9, converted = True, unit = Some (str ''C'')\<rparr>"
  by (simp add: convertTemperatureValue_raw normalizeTemperatureUnit_examples falsy_def
        findFromConverter_examples findToConverter_examples unitIfCorF_def str_inject str_eq_Nil_iff)

lemma distinct_thermostatAttributes: "distinct thermostatAttributes"
  by (simp add: thermostatAttributes_def str_inject)

lemma replaceAll_delete: "replaceAll [p] [] s = filter (\<lambda>c. c \<noteq> p) s"
  by (induction s) (simp_all add: replaceAll_single)

lemma replaceAll_subst: "replaceAll [p] [r] s = map (\<lambda>c. if c = p then r else c) s"
  by (induction s) (simp_all add: replaceAll_single)

lemma normalizedText_spec:
  "normalizedText u =
     trim (map (\<lambda>c. if c = 0x2D \<or> c = 0x20 then 0x5F else c)
            (filter (\<lambda>c. c \<noteq> degree) (toUpperCase u)))"
proof -
  have "(\<lambda>c::nat. if c = 0x20 then 0x5F else c) \<circ> (\<lambda>c. if c = 0x2D then 0x5F else c) =
        (\<lambda>c. if c = 0x2D \<or> c = 0x20 then 0x5F else c)"
    by (auto simp: fun_eq_iff)
  then show ?thesis
    by (simp add: str_one replaceAll_delete replaceAll_subst)
qed

lemma convertTemperatureValue_exact_alias:
  assumes "normalizeTemperatureUnit fromUnit = Some nf"
    and "normalizeTemperatureUnit toUnit = Some nt"
    and "nf \<noteq> nt"
    and "(nf \<in> set celsiusUnits \<and> nt \<in> set celsiusUnits) \<or>
         (nf \<in> set fahrenheitUnits \<and> nt \<in> set fahrenheitUnits)"
  shows "convertTemperatureValue v fromUnit toUnit =
           \<lparr>val = v, converted = True,
            unit = (if nt = str ''C'' \<or> nt = str ''F'' then Some nt else None)\<rparr>"
proof -
  from assms(4) have ne: "nf \<noteq> []" "nt \<noteq> []"
    using celsiusUnits_nonempty fahrenheitUnits_nonempty by auto
  have ff: "findFromConverter fromUnit =
        List.find (\<lambda>converter. nf \<in> set (units converter)) temperatureFromUnits"
    using findFromConverter_normalized [OF assms(1) ne(1)] findFromConverter_raw [of fromUnit]
    by (simp add: assms(1))
  have ft: "findToConverter toUnit =
        List.find (\<lambda>converter. nt \<in> set (units_o converter)) temperatureToUnits"
    using findToConverter_normalized [OF assms(2) ne(2)] findToConverter_raw [of toUnit]
    by (simp add: assms(2))
  from assms(4) show ?thesis
  proof
    assume "nf \<in> set celsiusUnits \<and> nt \<in> set celsiusUnits"
    then show ?thesis
      using assms(3) ne
      by (simp add: convertTemperatureValue_raw assms(1,2) ff ft falsy_def unitIfCorF_def
            find_temperatureFromUnits find_temperatureToUnits)
  next
    assume f: "nf \<in> set fahrenheitUnits \<and> nt \<in> set fahrenheitUnits"
    with units_disjoint have "nf \<notin> set celsiusUnits" "nt \<notin> set celsiusUnits" by auto
    with f show ?thesis
      using assms(3) ne
      by (simp add: convertTemperatureValue_raw assms(1,2) ff ft falsy_def unitIfCorF_def
            find_temperatureFromUnits find_temperatureToUnits diff_divide_distrib)
  qed
qed

section \<open>Facts about the converter over the doubles\<close>

declare exponentIn.simps [simp del]

lemma floor_numeral_quotient:
  "\<lfloor>numeral a / numeral b :: rat\<rfloor> = numeral a div numeral b"
  using floor_divide_of_int_eq [of "numeral a" "numeral b", where ?'a = rat] by simp

lemmas number_eval = floor_numeral_quotient plus_number_def minus_number_def times_number_def
  divide_number_def round64_def roundHalfEven_def pow2_def signedZero_def signedInf_def
  exponentIn.simps Let_def

lemma find_temperatureFromUnits_double:
  "List.find (\<lambda>converter. n \<in> set (units converter)) temperatureFromUnits_double =
     (if n \<in> set celsiusUnits
        then Some \<lparr>units = celsiusUnits, toCelsius = (\<lambda>value. value)\<rparr>
      else if n \<in> set fahrenheitUnits
        then Some \<lparr>units = fahrenheitUnits,
                   toCelsius = (\<lambda>value. ((value - Fin 32) * Fin 5) / Fin 9)\<rparr>
      else None)"
  by (simp add: temperatureFromUnits_double_def)

lemma find_temperatureToUnits_double:
  "List.find (\<lambda>converter. n \<in> set (units_o converter)) temperatureToUnits_double =
     (if n \<in> set celsiusUnits
        then Some \<lparr>units_o = celsiusUnits, fromCelsius = (\<lambda>value. value)\<rparr>
      else if n \<in> set fahrenheitUnits
        then Some \<lparr>units_o = fahrenheitUnits,
                   fromCelsius = (\<lambda>value. value * (Fin 9 / Fin 5) + Fin 32)\<rparr>
      else None)"
  by (simp add: temperatureToUnits_double_def)

lemma findFromConverter_double_raw:
  "findFromConverter_double (normalizeTemperatureUnit u) = findFromConverter_double u"
proof (cases "normalizeTemperatureUnit u")
  case None
  then show ?thesis by (simp add: findFromConverter_double_def normalizeTemperatureUnit_def)
next
  case (Some n)
  show ?thesis
  proof (cases "n = []")
    case True
    with Some show ?thesis
      by (simp add: findFromConverter_double_def normalizeTemperatureUnit_def)
  next
    case False
    with Some show ?thesis
      using normalizeTemperatureUnit_idem [OF Some False]
      by (simp add: findFromConverter_double_def)
  qed
qed

lemma findToConverter_double_raw:
  "findToConverter_double (normalizeTemperatureUnit u) = findToConverter_double u"
proof (cases "normalizeTemperatureUnit u")
  case None
  then show ?thesis by (simp add: findToConverter_double_def normalizeTemperatureUnit_def)
next
  case (Some n)
  show ?thesis
  proof (cases "n = []")
    case True
    with Some show ?thesis
      by (simp add: findToConverter_double_def normalizeTemperatureUnit_def)
  next
    case False
    with Some show ?thesis
      using normalizeTemperatureUnit_idem [OF Some False]
      by (simp add: findToConverter_double_def)
  qed
qed

lemma convertTemperatureValue_double_raw:
  "convertTemperatureValue_double w f t =
     (let normalizedFrom = normalizeTemperatureUnit f;
          normalizedTo = normalizeTemperatureUnit t
      in if falsy normalizedTo \<or> falsy normalizedFrom \<or> normalizedFrom = normalizedTo
         then \<lparr>val = w, converted = False, unit = unitIfCorF normalizedFrom\<rparr>
         else
           (case (findFromConverter_double f, findToConverter_double t) of
              (Some fromConverter, Some toConverter) \<Rightarrow>
                \<lparr>val = fromCelsius toConverter (toCelsius fromConverter w),
                 converted = True, unit = unitIfCorF normalizedTo\<rparr>
            | _ \<Rightarrow> \<lparr>val = w, converted = False, unit = unitIfCorF normalizedFrom\<rparr>))"
  by (simp add: convertTemperatureValue_double_def Let_def findFromConverter_double_raw
        findToConverter_double_raw split: option.splits)

text \<open>
  The two embeddings of the lookups find an entry for the same units.
\<close>

lemma findFromConverter_double_None_iff:
  "findFromConverter_double u = None \<longleftrightarrow> findFromConverter u = None"
  by (simp add: findFromConverter_double_def findFromConverter_def
        find_temperatureFromUnits_double find_temperatureFromUnits split: option.splits)

lemma findToConverter_double_None_iff:
  "findToConverter_double u = None \<longleftrightarrow> findToConverter u = None"
  by (simp add: findToConverter_double_def findToConverter_def
        find_temperatureToUnits_double find_temperatureToUnits split: option.splits)

text \<open>
  The two embeddings of the converter convert for the same units and tag the result with
  the same unit; where they do not convert, each returns its input value.
\<close>

lemma convertTemperatureValue_double_flags:
  "converted (convertTemperatureValue_double w f t) = converted (convertTemperatureValue v f t) \<and>
   unit (convertTemperatureValue_double w f t) = unit (convertTemperatureValue v f t)"
proof -
  have "(findFromConverter_double f = None) = (findFromConverter f = None)"
    and "(findToConverter_double t = None) = (findToConverter t = None)"
    by (rule findFromConverter_double_None_iff, rule findToConverter_double_None_iff)
  then show ?thesis
    by (auto simp: convertTemperatureValue_double_raw convertTemperatureValue_raw Let_def
          split: option.splits)
qed

lemma convertTemperatureValue_double_unconverted:
  assumes "converted (convertTemperatureValue_double w f t) = False"
  shows "val (convertTemperatureValue_double w f t) = w"
  using assms
  by (auto simp: convertTemperatureValue_double_raw Let_def split: option.splits if_splits)

lemma convertTemperatureValue_double_alias:
  assumes "normalizeTemperatureUnit fromUnit = Some nf"
    and "normalizeTemperatureUnit toUnit = Some nt"
    and "nf \<noteq> nt"
    and "(nf \<in> set celsiusUnits \<and> nt \<in> set celsiusUnits) \<or>
         (nf \<in> set fahrenheitUnits \<and> nt \<in> set fahrenheitUnits)"
  shows "convertTemperatureValue_double w fromUnit toUnit =
           \<lparr>val = (if nf \<in> set celsiusUnits then w
                   else ((w - Fin 32) * Fin 5) / Fin 9 * (Fin 9 / Fin 5) + Fin 32),
            converted = True,
            unit = (if nt = str ''C'' \<or> nt = str ''F'' then Some nt else None)\<rparr>"
proof -
  from assms(4) have ne: "nf \<noteq> []" "nt \<noteq> []"
    using celsiusUnits_nonempty fahrenheitUnits_nonempty by auto
  have ff: "findFromConverter_double fromUnit =
        List.find (\<lambda>converter. nf \<in> set (units converter)) temperatureFromUnits_double"
    using ne(1) by (simp add: findFromConverter_double_def assms(1))
  have ft: "findToConverter_double toUnit =
        List.find (\<lambda>converter. nt \<in> set (units_o converter)) temperatureToUnits_double"
    using ne(2) by (simp add: findToConverter_double_def assms(2))
  from assms(4) show ?thesis
  proof
    assume "nf \<in> set celsiusUnits \<and> nt \<in> set celsiusUnits"
    then show ?thesis
      using assms(3) ne
      by (simp add: convertTemperatureValue_double_raw assms(1,2) ff ft falsy_def unitIfCorF_def
            find_temperatureFromUnits_double find_temperatureToUnits_double)
  next
    assume f: "nf \<in> set fahrenheitUnits \<and> nt \<in> set fahrenheitUnits"
    with units_disjoint have "nf \<notin> set celsiusUnits" "nt \<notin> set celsiusUnits" by auto
    with f show ?thesis
      using assms(3) ne
      by (simp add: convertTemperatureValue_double_raw assms(1,2) ff ft falsy_def unitIfCorF_def
            find_temperatureFromUnits_double find_temperatureToUnits_double)
  qed
qed

lemma double_steps:
  "Fin (3602879701896397 / 36028797018963968) - Fin 32 =
     Fin (- (4489525878534963 / 140737488355328))"
  "Fin (- (4489525878534963 / 140737488355328)) * Fin 5 = Fin (- (319 / 2))"
  "Fin (- (319 / 2)) / Fin 9 = Fin (- (2494181043630535 / 140737488355328))"
  "Fin 9 / Fin 5 = Fin (8106479329266893 / 4503599627370496)"
  "Fin (- (2494181043630535 / 140737488355328)) * Fin (8106479329266893 / 4503599627370496) =
     Fin (- (4489525878534963 / 140737488355328))"
  "Fin (- (4489525878534963 / 140737488355328)) + Fin 32 =
     Fin (14073748835533 / 140737488355328)"
  by (simp_all add: number_eval)

lemma double_steps_50:
  "Fin 50 - Fin 32 = Fin 18"
  "Fin 18 * Fin 5 = Fin 90"
  "Fin 90 / Fin 9 = Fin 10"
  "Fin 10 * Fin (8106479329266893 / 4503599627370496) = Fin 18"
  "Fin 18 + Fin 32 = Fin 50"
  by (simp_all add: number_eval)

text \<open>
  Sample values: one tenth rounds to the double 0.1; the fixed points of the specification
  are exact in doubles; 37 Celsius are 98.60000000000001 Fahrenheit; \<open>1e308\<close> overflows
  out of Celsius, and \<open>3.6e307\<close> on the way from Fahrenheit to Fahrenheit.
\<close>

lemma double_examples:
  "round64 (1 / 10) = Fin (3602879701896397 / 36028797018963968)"
  "Fin 0 * (Fin 9 / Fin 5) + Fin 32 = Fin 32"
  "((Fin 212 - Fin 32) * Fin 5) / Fin 9 = Fin 100"
  "Fin (- 40) * (Fin 9 / Fin 5) + Fin 32 = Fin (- 40)"
  "Fin 37 * (Fin 9 / Fin 5) + Fin 32 = Fin (6938358175917671 / 70368744177664)"
  "round64 (10 ^ 308) * (Fin 9 / Fin 5) + Fin 32 = PosInf"
  "((round64 (36 * 10 ^ 306) - Fin 32) * Fin 5) / Fin 9 * (Fin 9 / Fin 5) + Fin 32 = PosInf"
  by (simp_all add: number_eval)

section \<open>The unit normaliser\<close>

text \<open>
  Claim C1, as amended. The aliases \<open>C\<close>, \<open>CELSIUS\<close> and the degree sign followed by \<open>C\<close>
  normalise to \<open>C\<close>, and \<open>F\<close>, \<open>FAHRENHEIT\<close> and the degree sign followed by \<open>F\<close>
  normalise to \<open>F\<close>. The long aliases \<open>DEGREE_CELSIUS\<close>, \<open>DEGREES_CELSIUS\<close>,
  \<open>DEGREE_FAHRENHEIT\<close> and \<open>DEGREES_FAHRENHEIT\<close> are not keys of the exact-match table
  and are returned unchanged.
\<close>

theorem normalizeTemperatureUnit_aliases:
  "normalizeTemperatureUnit (Some (str ''C'')) = Some (str ''C'') \<and>
   normalizeTemperatureUnit (Some (str ''CELSIUS'')) = Some (str ''C'') \<and>
   normalizeTemperatureUnit (Some (degree # str ''C'')) = Some (str ''C'') \<and>
   normalizeTemperatureUnit (Some (str ''DEGREE_CELSIUS'')) = Some (str ''DEGREE_CELSIUS'') \<and>
   normalizeTemperatureUnit (Some (str ''DEGREES_CELSIUS'')) = Some (str ''DEGREES_CELSIUS'') \<and>
   normalizeTemperatureUnit (Some (str ''F'')) = Some (str ''F'') \<and>
   normalizeTemperatureUnit (Some (str ''FAHRENHEIT'')) = Some (str ''F'') \<and>
   normalizeTemperatureUnit (Some (degree # str ''F'')) = Some (str ''F'') \<and>
   normalizeTemperatureUnit (Some (str ''DEGREE_FAHRENHEIT'')) = Some (str ''DEGREE_FAHRENHEIT'') \<and>
   normalizeTemperatureUnit (Some (str ''DEGREES_FAHRENHEIT'')) = Some (str ''DEGREES_FAHRENHEIT'')"
  by (simp add: normalizeTemperatureUnit_examples)

text \<open>
  Claim C1 as stated fails: the alias \<open>DEGREE_CELSIUS\<close> does not normalise to \<open>C\<close>.
\<close>

theorem normalizeTemperatureUnit_degree_alias_counterexample:
  "normalizeTemperatureUnit (Some (str ''DEGREE_CELSIUS'')) \<noteq> Some (str ''C'')"
  by (simp add: normalizeTemperatureUnit_examples str_inject)

text \<open>
  Claim C9. The normaliser computes what the specification's algorithm computes, on
  every input, and its result is \<open>undefined\<close> exactly for the falsy inputs: \<open>undefined\<close>,
  \<open>null\<close> and the empty string. A string that normalises to the empty string, such as a
  lone degree sign, gives that empty string and not \<open>undefined\<close>.
\<close>

theorem normalizeTemperatureUnit_refines_spec:
  "normalizeTemperatureUnit u = normalizeTemperatureUnit_spec u \<and>
   (normalizeTemperatureUnit u = None \<longleftrightarrow> u = None \<or> u = Some [])"
proof (cases u)
  case None
  then show ?thesis
    by (simp add: normalizeTemperatureUnit_def normalizeTemperatureUnit_spec_def)
next
  case (Some s)
  show ?thesis
  proof (cases "s = []")
    case True
    with Some show ?thesis
      by (simp add: normalizeTemperatureUnit_def normalizeTemperatureUnit_spec_def)
  next
    case False
    with Some show ?thesis
      by (simp add: normalizeTemperatureUnit_Some normalizeTemperatureUnit_spec_def Let_def
            NORMALIZED_UNIT_MAP_apply normalizedText_spec [symmetric])
  qed
qed

section \<open>The value converter\<close>

text \<open>
  Claim C2. Converting a value from \<open>C\<close> to \<open>F\<close> and the result back from \<open>F\<close> to \<open>C\<close>
  gives the value again, in exact arithmetic.
\<close>

theorem convertTemperatureValue_round_trip: "val (convertTemperatureValue
          (val (convertTemperatureValue v (Some (str ''C'')) (Some (str ''F''))))
          (Some (str ''F'')) (Some (str ''C''))) = v"
  by (simp add: convert_C_to_F convert_F_to_C)

text \<open>
  Claim C3. Zero degrees Celsius are 32 Fahrenheit, 212 Fahrenheit are 100 Celsius and
  minus 40 Celsius are minus 40 Fahrenheit, each converted and tagged with the target
  unit; a value \<open>v\<close> goes into Celsius as \<open>(v - 32) * 5/9\<close> and out of Celsius as
  \<open>v * 9/5 + 32\<close>.
\<close>

theorem convertTemperatureValue_fixed_points:
  "convertTemperatureValue 0 (Some (str ''C'')) (Some (str ''F'')) =
     \<lparr>val = 32, converted = True, unit = Some (str ''F'')\<rparr> \<and>
   convertTemperatureValue 212 (Some (str ''F'')) (Some (str ''C'')) =
     \<lparr>val = 100, converted = True, unit = Some (str ''C'')\<rparr> \<and>
   convertTemperatureValue (- 40) (Some (str ''C'')) (Some (str ''F'')) =
     \<lparr>val = - 40, converted = True, unit = Some (str ''F'')\<rparr> \<and>
   (\<forall>v. convertTemperatureValue v (Some (str ''F'')) (Some (str ''C'')) =
     \<lparr>val = (v - 32) * (5 / 9), converted = True, unit = Some (str ''C'')\<rparr>) \<and>
   (\<forall>v. convertTemperatureValue v (Some (str ''C'')) (Some (str ''F'')) =
     \<lparr>val = v * (9 / 5) + 32, converted = True, unit = Some (str ''F'')\<rparr>)"
  by (simp add: convert_C_to_F convert_F_to_C)

text \<open>
  Claim C4. With the same unit on both sides, whatever it is, the value is returned
  unchanged and unconverted, tagged with the normalised unit when that is \<open>C\<close> or \<open>F\<close>
  and with \<open>undefined\<close> otherwise.
\<close>

theorem convertTemperatureValue_same_unit:
  "convertTemperatureValue v u u =
     \<lparr>val = v, converted = False,
      unit = (if normalizeTemperatureUnit u = Some (str ''C'') \<or>
                 normalizeTemperatureUnit u = Some (str ''F'')
              then normalizeTemperatureUnit u else None)\<rparr>"
  by (simp add: convertTemperatureValue_def Let_def unitIfCorF_def)

text \<open>
  Claim C5. When the source or the target unit is missing, or when the source unit
  normalises to a token that no entry of the into-Celsius table lists, or the target
  unit to a token that no entry of the out-of-Celsius table lists, the value is returned
  unchanged with \<open>converted\<close> false. The converter is total and always returns a result
  object: there is no error result.
\<close>

theorem convertTemperatureValue_unsupported:
  assumes "fromUnit = None \<or> fromUnit = Some [] \<or> toUnit = None \<or> toUnit = Some [] \<or>
           (\<exists>n. normalizeTemperatureUnit fromUnit = Some n \<and>
                (\<forall>converter\<in>set temperatureFromUnits. n \<notin> set (units converter))) \<or>
           (\<exists>n. normalizeTemperatureUnit toUnit = Some n \<and>
                (\<forall>converter\<in>set temperatureToUnits. n \<notin> set (units_o converter)))"
  shows "converted (convertTemperatureValue v fromUnit toUnit) = False \<and>
         val (convertTemperatureValue v fromUnit toUnit) = v"
proof -
  have "falsy (normalizeTemperatureUnit fromUnit) \<or> falsy (normalizeTemperatureUnit toUnit) \<or>
        findFromConverter fromUnit = None \<or> findToConverter toUnit = None"
    using assms findFromConverter_absent findToConverter_absent
    by (auto simp: falsy_def normalizeTemperatureUnit_None_iff)
  then show ?thesis
    by (auto simp: convertTemperatureValue_raw Let_def split: option.splits)
qed

text \<open>
  The hypothesis of claim C5 holds for the units \<open>K\<close> and \<open>kelvin\<close>, whose tokens are in
  neither alias list, and for a missing source unit.
\<close>

theorem convertTemperatureValue_unsupported_witness:
  "normalizeTemperatureUnit (Some (str ''K'')) = Some (str ''K'') \<and>
   str ''K'' \<notin> set celsiusUnits \<union> set fahrenheitUnits \<and>
   normalizeTemperatureUnit (Some (str ''kelvin'')) = Some (str ''KELVIN'') \<and>
   str ''KELVIN'' \<notin> set celsiusUnits \<union> set fahrenheitUnits \<and>
   converted (convertTemperatureValue 10 (Some (str ''K'')) (Some (str ''F''))) = False \<and>
   val (convertTemperatureValue 10 (Some (str ''K'')) (Some (str ''F''))) = 10 \<and>
   converted (convertTemperatureValue 10 (Some (str ''C'')) (Some (str ''kelvin''))) = False \<and>
   val (convertTemperatureValue 10 (Some (str ''C'')) (Some (str ''kelvin''))) = 10 \<and>
   converted (convertTemperatureValue 10 None (Some (str ''F''))) = False \<and>
   val (convertTemperatureValue 10 None (Some (str ''F''))) = 10"
  using convertTemperatureValue_unsupported [of "Some (str ''K'')" "Some (str ''F'')" 10]
        convertTemperatureValue_unsupported [of "Some (str ''C'')" "Some (str ''kelvin'')" 10]
        convertTemperatureValue_unsupported [of None "Some (str ''F'')" 10]
  by (simp add: normalizeTemperatureUnit_examples units_examples
        temperatureFromUnits_def temperatureToUnits_def)

text \<open>
  Claim C10, as amended. When source and target normalise to two different tokens of
  the same alias list, the converter reports a conversion. Within the Celsius list the
  value it returns is the input value itself. Within the Fahrenheit list the value it
  returns is \<open>((w - 32) * 5) / 9 * (9 / 5) + 32\<close> in double arithmetic; the composed
  transform is the identity in exact arithmetic, where the value returned is the input
  value.
\<close>

theorem convertTemperatureValue_alias_pair:
  assumes "normalizeTemperatureUnit fromUnit = Some nf"
    and "normalizeTemperatureUnit toUnit = Some nt"
    and "nf \<noteq> nt"
    and "(nf \<in> set celsiusUnits \<and> nt \<in> set celsiusUnits) \<or>
         (nf \<in> set fahrenheitUnits \<and> nt \<in> set fahrenheitUnits)"
  shows "convertTemperatureValue_double w fromUnit toUnit =
           \<lparr>val = (if nf \<in> set celsiusUnits then w
                   else ((w - Fin 32) * Fin 5) / Fin 9 * (Fin 9 / Fin 5) + Fin 32),
            converted = True,
            unit = (if nt = str ''C'' \<or> nt = str ''F'' then Some nt else None)\<rparr> \<and>
         convertTemperatureValue v fromUnit toUnit =
           \<lparr>val = v, converted = True,
            unit = (if nt = str ''C'' \<or> nt = str ''F'' then Some nt else None)\<rparr>"
proof
  show "convertTemperatureValue_double w fromUnit toUnit =
           \<lparr>val = (if nf \<in> set celsiusUnits then w
                   else ((w - Fin 32) * Fin 5) / Fin 9 * (Fin 9 / Fin 5) + Fin 32),
            converted = True,
            unit = (if nt = str ''C'' \<or> nt = str ''F'' then Some nt else None)\<rparr>"
    using assms by (rule convertTemperatureValue_double_alias)
  show "convertTemperatureValue v fromUnit toUnit =
           \<lparr>val = v, converted = True,
            unit = (if nt = str ''C'' \<or> nt = str ''F'' then Some nt else None)\<rparr>"
    using assms by (rule convertTemperatureValue_exact_alias)
qed

text \<open>
  The hypotheses of claim C10 hold for \<open>DEGREE_CELSIUS\<close> to \<open>C\<close> and for
  \<open>degrees fahrenheit\<close> to \<open>F\<close>; the double 50 is one that the Fahrenheit pair returns
  unchanged.
\<close>

theorem convertTemperatureValue_alias_pair_witness:
  "convertTemperatureValue_double (Fin 10) (Some (str ''DEGREE_CELSIUS'')) (Some (str ''C'')) =
     \<lparr>val = Fin 10, converted = True, unit = Some (str ''C'')\<rparr> \<and>
   convertTemperatureValue_double (Fin 50) (Some (str ''degrees fahrenheit'')) (Some (str ''F'')) =
     \<lparr>val = Fin 50, converted = True, unit = Some (str ''F'')\<rparr> \<and>
   convertTemperatureValue 10 (Some (str ''DEGREE_CELSIUS'')) (Some (str ''C'')) =
     \<lparr>val = 10, converted = True, unit = Some (str ''C'')\<rparr> \<and>
   convertTemperatureValue 10 (Some (str ''degrees fahrenheit'')) (Some (str ''F'')) =
     \<lparr>val = 10, converted = True, unit = Some (str ''F'')\<rparr>"
  using convertTemperatureValue_alias_pair [of "Some (str ''DEGREE_CELSIUS'')" "str ''DEGREE_CELSIUS''"
               "Some (str ''C'')" "str ''C''" "Fin 10" 10]
        convertTemperatureValue_alias_pair [of "Some (str ''degrees fahrenheit'')" "str ''DEGREES_FAHRENHEIT''"
               "Some (str ''F'')" "str ''F''" "Fin 50" 10]
  by (simp add: normalizeTemperatureUnit_examples units_examples str_inject double_steps_50
        double_steps(4))

text \<open>
  Claim C10 as stated fails: from \<open>degrees fahrenheit\<close> to \<open>F\<close> the double nearest to one
  tenth, 0.1, comes back as another double, 0.10000000000000142.
\<close>

theorem convertTemperatureValue_alias_pair_counterexample:
  "round64 (1 / 10) = Fin (3602879701896397 / 36028797018963968) \<and>
   convertTemperatureValue_double (Fin (3602879701896397 / 36028797018963968))
       (Some (str ''degrees fahrenheit'')) (Some (str ''F'')) =
     \<lparr>val = Fin (14073748835533 / 140737488355328), converted = True,
      unit = Some (str ''F'')\<rparr> \<and>
   val (convertTemperatureValue_double (Fin (3602879701896397 / 36028797018963968))
       (Some (str ''degrees fahrenheit'')) (Some (str ''F''))) \<noteq>
     Fin (3602879701896397 / 36028797018963968)"
proof -
  have "convertTemperatureValue_double (Fin (3602879701896397 / 36028797018963968))
       (Some (str ''degrees fahrenheit'')) (Some (str ''F'')) =
     \<lparr>val = Fin (14073748835533 / 140737488355328), converted = True,
      unit = Some (str ''F'')\<rparr>"
    using convertTemperatureValue_double_alias
            [of "Some (str ''degrees fahrenheit'')" "str ''DEGREES_FAHRENHEIT''"
                "Some (str ''F'')" "str ''F''" "Fin (3602879701896397 / 36028797018963968)"]
    by (simp add: normalizeTemperatureUnit_examples units_examples str_inject double_steps)
  then show ?thesis
    by (simp add: double_examples(1))
qed

section \<open>The target resolver\<close>

text \<open>
  Claim C6. The device mode takes precedence over the system target: the mode
  \<open>none\<close> gives \<open>undefined\<close> and the two forcing modes give \<open>C\<close> and \<open>F\<close> whatever the
  system target is; \<open>follow_system\<close> gives \<open>C\<close> for \<open>celsius\<close>, \<open>F\<close> for \<open>fahrenheit\<close>
  and \<open>undefined\<close> for \<open>none\<close>.
\<close>

theorem resolveTemperatureTargetUnit_precedence:
  "(\<forall>s. resolveTemperatureTargetUnit s none_d = None) \<and>
   (\<forall>s. resolveTemperatureTargetUnit s force_celsius = Some (str ''C'')) \<and>
   (\<forall>s. resolveTemperatureTargetUnit s force_fahrenheit = Some (str ''F'')) \<and>
   resolveTemperatureTargetUnit celsius follow_system = Some (str ''C'') \<and>
   resolveTemperatureTargetUnit fahrenheit follow_system = Some (str ''F'') \<and>
   resolveTemperatureTargetUnit none follow_system = None"
  by (simp add: resolveTemperatureTargetUnit_def)

section \<open>The symbol formatter\<close>

text \<open>
  Claim C8. The symbol is the degree sign followed by \<open>C\<close> or \<open>F\<close> when the unit
  normalises to \<open>C\<close> or \<open>F\<close>, and the empty string otherwise; normalising the symbol
  gives back the normalised unit in the first two cases.
\<close>

theorem toTemperatureUnitSymbol_inverse:
  "toTemperatureUnitSymbol u =
     (if normalizeTemperatureUnit u = Some (str ''C'') then degree # str ''C''
      else if normalizeTemperatureUnit u = Some (str ''F'') then degree # str ''F''
      else []) \<and>
   (normalizeTemperatureUnit u = Some (str ''C'') \<or> normalizeTemperatureUnit u = Some (str ''F'')
      \<longrightarrow> normalizeTemperatureUnit (Some (toTemperatureUnitSymbol u)) = normalizeTemperatureUnit u)"
  by (auto simp: toTemperatureUnitSymbol_def Let_def normalizeTemperatureUnit_examples)

text \<open>
  The hypothesis of claim C8 holds for the unit \<open>fahrenheit\<close>.
\<close>

theorem toTemperatureUnitSymbol_inverse_witness:
  "normalizeTemperatureUnit (Some (str ''fahrenheit'')) = Some (str ''F'') \<and>
   toTemperatureUnitSymbol (Some (str ''fahrenheit'')) = degree # str ''F'' \<and>
   normalizeTemperatureUnit (Some (toTemperatureUnitSymbol (Some (str ''fahrenheit'')))) =
     normalizeTemperatureUnit (Some (str ''fahrenheit''))"
  using toTemperatureUnitSymbol_inverse [of "Some (str ''fahrenheit'')"]
  by (simp add: normalizeTemperatureUnit_examples str_inject)

section \<open>The attribute classifier\<close>

text \<open>
  Claim C7. A pair of cluster and attribute is a temperature exactly when the
  lower-cased cluster name is \<open>temperaturemeasurement\<close> and the attribute is
  \<open>measuredValue\<close>, or the lower-cased cluster name is \<open>thermostat\<close> and the attribute is
  one of the fourteen thermostat attributes. The case of the cluster name does not
  matter, the case of the attribute name does.
\<close>

theorem isTemperatureAttribute_iff:
  "(isTemperatureAttribute clusterName attributeName \<longleftrightarrow>
      (toLowerCase clusterName = str ''temperaturemeasurement'' \<and>
       attributeName = str ''measuredValue'') \<or>
      (toLowerCase clusterName = str ''thermostat'' \<and>
       attributeName \<in> set thermostatAttributes)) \<and>
   card (set thermostatAttributes) = 14 \<and>
   isTemperatureAttribute (str ''TemperatureMeasurement'') (str ''measuredValue'') \<and>
   isTemperatureAttribute (str ''THERMOSTAT'') (str ''localTemperature'') \<and>
   \<not> isTemperatureAttribute (str ''thermostat'') (str ''LocalTemperature'') \<and>
   \<not> isTemperatureAttribute (str ''temperaturemeasurement'') (str ''MeasuredValue'')"
proof -
  have lower:
    "toLowerCase (str ''TemperatureMeasurement'') = str ''temperaturemeasurement''"
    "toLowerCase (str ''THERMOSTAT'') = str ''thermostat''"
    "toLowerCase (str ''thermostat'') = str ''thermostat''"
    "toLowerCase (str ''temperaturemeasurement'') = str ''temperaturemeasurement''"
    by (simp_all add: toLowerCase_def lowerCodeUnit_def str_def)
  have "card (set thermostatAttributes) = length thermostatAttributes"
    using distinct_thermostatAttributes by (rule distinct_card)
  then have "card (set thermostatAttributes) = 14"
    by (simp add: thermostatAttributes_def)
  moreover have "str ''localTemperature'' \<in> set thermostatAttributes"
    and "str ''LocalTemperature'' \<notin> set thermostatAttributes"
    by (simp_all add: thermostatAttributes_def str_inject)
  ultimately show ?thesis
    by (auto simp: isTemperatureAttribute_def Let_def lower str_inject)
qed

end
